theory Spec2Isabelle
  imports Main
begin

section \<open>The Appwrite service layer of the client (api.ts), first version\<close>

text \<open>
  The functions of the service module talk to two remote stores through the Appwrite
  SDK: a storage bucket (files) and a document database (posts, saves, followers).
  The SDK itself is a library outside the repository, so every SDK call takes its
  outcome from a \<open>backend\<close> parameter: the call rejects, resolves to undefined or
  null (\<open>ResolvesNullish\<close>), resolves to another falsy value such as false, 0 or the
  empty string (\<open>ResolvesFalsy\<close>), or resolves to a value. The two falsy kinds
  behave alike under \<open>!x\<close> and differ when a property of the value is read. The
  model fixes only what the stores look like after a call.
  A thrown JavaScript error is the \<open>Inl\<close> of a sum; the state of the two stores,
  the list of storage calls issued and the console are passed explicitly.

  The source holds the module twice. The version modelled here is the first one, which
  throws its errors again and cleans up; the second one only logs them.
\<close>

subsection \<open>Data\<close>

type_synonym ident = string
type_synonym url = string
type_synonym payload = string

datatype 'a reply = Rejects | ResolvesNullish | ResolvesFalsy | Resolves 'a

datatype collection = PostCollection | SavesCollection | FollowersCollection

datatype error = AppwriteException | TypeError | Error string

datatype level = LogLevel | WarnLevel | ErrorLevel

datatype storage_call = CreateFile "payload option" | GetFilePreview ident | DeleteFile ident

record post_doc =
  doc_id :: ident
  creator :: ident
  caption :: "string option"
  imageUrl :: url
  imageId :: ident
  location :: "string option"
  tags :: "string list"
  likes :: "ident list"

record save_doc =
  save_id :: ident
  save_user :: ident
  save_post :: ident

record follow_doc =
  follow_id :: ident
  doc_followerId :: ident
  doc_followingId :: ident

text \<open>INewPost and IUpdatePost, with the fields the code reads as optional as options.\<close>

record new_post =
  new_userId :: ident
  new_caption :: "string option"
  new_file :: "payload list"
  new_location :: "string option"
  new_tags :: "string option"

record update_post =
  upd_postId :: ident
  upd_caption :: "string option"
  upd_imageId :: "ident option"
  upd_imageUrl :: "url option"
  upd_file :: "payload list option"
  upd_location :: "string option"
  upd_tags :: "string option"

text \<open>
  The remote state: the bucket's file ids, the three collections in insertion order,
  and two observation logs (the storage calls issued so far, the console lines).
\<close>

record world =
  files :: "ident set"
  posts :: "post_doc list"
  saves :: "save_doc list"
  followers :: "follow_doc list"
  storage_calls :: "storage_call list"
  console :: "(level \<times> string) list"

text \<open>What the remote side answers to each SDK call.\<close>

record backend =
  createFile_reply :: "payload option \<Rightarrow> ident reply"
  getFilePreview_reply :: "ident \<Rightarrow> url reply"
  deleteFile_reply :: "ident \<Rightarrow> unit reply"
  createDocument_reply :: "collection \<Rightarrow> ident reply"
  updateDocument_reply :: "collection \<Rightarrow> ident \<Rightarrow> unit reply"
  listDocuments_reply :: "collection \<Rightarrow> unit reply"
  deleteDocument_reply :: "collection \<Rightarrow> ident \<Rightarrow> unit reply"

definition emit :: "level \<Rightarrow> string \<Rightarrow> world \<Rightarrow> world" where
  "emit l msg w = w\<lparr>console := console w @ [(l, msg)]\<rparr>"

definition issued :: "storage_call \<Rightarrow> world \<Rightarrow> world" where
  "issued c w = w\<lparr>storage_calls := storage_calls w @ [c]\<rparr>"

subsection \<open>The SDK calls\<close>

text \<open>
  A call that rejects or resolves to a falsy value leaves the remote state as it was.
  The deletions resolve to void: their resolution has no value to be falsy or not, and
  after it the id is not in the store, whether or not it was there before.
\<close>

definition storage_createFile :: "backend \<Rightarrow> payload option \<Rightarrow> world \<Rightarrow> ident reply \<times> world" where
  "storage_createFile b f w =
     (case createFile_reply b f of
        Rejects \<Rightarrow> (Rejects, issued (CreateFile f) w)
      | ResolvesNullish \<Rightarrow> (ResolvesNullish, issued (CreateFile f) w)
      | ResolvesFalsy \<Rightarrow> (ResolvesFalsy, issued (CreateFile f) w)
      | Resolves fid \<Rightarrow>
          (Resolves fid, (issued (CreateFile f) w)\<lparr>files := insert fid (files w)\<rparr>))"

definition storage_getFilePreview :: "backend \<Rightarrow> ident \<Rightarrow> world \<Rightarrow> url reply \<times> world" where
  "storage_getFilePreview b fid w = (getFilePreview_reply b fid, issued (GetFilePreview fid) w)"

definition storage_deleteFile :: "backend \<Rightarrow> ident \<Rightarrow> world \<Rightarrow> unit reply \<times> world" where
  "storage_deleteFile b fid w =
     (case deleteFile_reply b fid of
        Rejects \<Rightarrow> (Rejects, issued (DeleteFile fid) w)
      | ResolvesNullish \<Rightarrow> (Resolves (), (issued (DeleteFile fid) w)\<lparr>files := files w - {fid}\<rparr>)
      | ResolvesFalsy \<Rightarrow> (Resolves (), (issued (DeleteFile fid) w)\<lparr>files := files w - {fid}\<rparr>)
      | Resolves u \<Rightarrow> (Resolves (), (issued (DeleteFile fid) w)\<lparr>files := files w - {fid}\<rparr>))"

definition createDocument_post :: "backend \<Rightarrow> post_doc \<Rightarrow> world \<Rightarrow> post_doc reply \<times> world" where
  "createDocument_post b d w =
     (case createDocument_reply b PostCollection of
        Rejects \<Rightarrow> (Rejects, w)
      | ResolvesNullish \<Rightarrow> (ResolvesNullish, w)
      | ResolvesFalsy \<Rightarrow> (ResolvesFalsy, w)
      | Resolves i \<Rightarrow> (Resolves (d\<lparr>doc_id := i\<rparr>), w\<lparr>posts := posts w @ [d\<lparr>doc_id := i\<rparr>]\<rparr>))"

text \<open>An update resolves to the updated document, so it rejects for an unknown id.\<close>

definition updateDocument_post ::
  "backend \<Rightarrow> ident \<Rightarrow> (post_doc \<Rightarrow> post_doc) \<Rightarrow> world \<Rightarrow> post_doc reply \<times> world" where
  "updateDocument_post b pid upd w =
     (case updateDocument_reply b PostCollection pid of
        Rejects \<Rightarrow> (Rejects, w)
      | ResolvesNullish \<Rightarrow> (ResolvesNullish, w)
      | ResolvesFalsy \<Rightarrow> (ResolvesFalsy, w)
      | Resolves u \<Rightarrow>
          (case find (\<lambda>d. doc_id d = pid) (posts w) of
             None \<Rightarrow> (Rejects, w)
           | Some d \<Rightarrow>
               (Resolves (upd d),
                w\<lparr>posts := map (\<lambda>x. if doc_id x = pid then upd x else x) (posts w)\<rparr>)))"

definition listDocuments_saves ::
  "backend \<Rightarrow> ident \<Rightarrow> ident \<Rightarrow> world \<Rightarrow> save_doc list reply" where
  "listDocuments_saves b u p w =
     (case listDocuments_reply b SavesCollection of
        Rejects \<Rightarrow> Rejects
      | ResolvesNullish \<Rightarrow> ResolvesNullish
      | ResolvesFalsy \<Rightarrow> ResolvesFalsy
      | Resolves x \<Rightarrow> Resolves (filter (\<lambda>d. save_user d = u \<and> save_post d = p) (saves w)))"

definition createDocument_save :: "backend \<Rightarrow> ident \<Rightarrow> ident \<Rightarrow> world \<Rightarrow> save_doc reply \<times> world" where
  "createDocument_save b u p w =
     (case createDocument_reply b SavesCollection of
        Rejects \<Rightarrow> (Rejects, w)
      | ResolvesNullish \<Rightarrow> (ResolvesNullish, w)
      | ResolvesFalsy \<Rightarrow> (ResolvesFalsy, w)
      | Resolves i \<Rightarrow>
          (Resolves \<lparr>save_id = i, save_user = u, save_post = p\<rparr>,
           w\<lparr>saves := saves w @ [\<lparr>save_id = i, save_user = u, save_post = p\<rparr>]\<rparr>))"

definition listDocuments_followers ::
  "backend \<Rightarrow> ident \<Rightarrow> ident \<Rightarrow> world \<Rightarrow> follow_doc list reply" where
  "listDocuments_followers b a c w =
     (case listDocuments_reply b FollowersCollection of
        Rejects \<Rightarrow> Rejects
      | ResolvesNullish \<Rightarrow> ResolvesNullish
      | ResolvesFalsy \<Rightarrow> ResolvesFalsy
      | Resolves x \<Rightarrow>
          Resolves (filter (\<lambda>d. doc_followerId d = a \<and> doc_followingId d = c) (followers w)))"

definition createDocument_follow ::
  "backend \<Rightarrow> ident \<Rightarrow> ident \<Rightarrow> world \<Rightarrow> follow_doc reply \<times> world" where
  "createDocument_follow b a c w =
     (case createDocument_reply b FollowersCollection of
        Rejects \<Rightarrow> (Rejects, w)
      | ResolvesNullish \<Rightarrow> (ResolvesNullish, w)
      | ResolvesFalsy \<Rightarrow> (ResolvesFalsy, w)
      | Resolves i \<Rightarrow>
          (Resolves \<lparr>follow_id = i, doc_followerId = a, doc_followingId = c\<rparr>,
           w\<lparr>followers :=
               followers w @ [\<lparr>follow_id = i, doc_followerId = a, doc_followingId = c\<rparr>]\<rparr>))"

definition deleteDocument_follow :: "backend \<Rightarrow> ident \<Rightarrow> world \<Rightarrow> unit reply \<times> world" where
  "deleteDocument_follow b i w =
     (case deleteDocument_reply b FollowersCollection i of
        Rejects \<Rightarrow> (Rejects, w)
      | ResolvesNullish \<Rightarrow> (Resolves (), w\<lparr>followers := filter (\<lambda>d. follow_id d \<noteq> i) (followers w)\<rparr>)
      | ResolvesFalsy \<Rightarrow> (Resolves (), w\<lparr>followers := filter (\<lambda>d. follow_id d \<noteq> i) (followers w)\<rparr>)
      | Resolves u \<Rightarrow> (Resolves (), w\<lparr>followers := filter (\<lambda>d. follow_id d \<noteq> i) (followers w)\<rparr>))"

subsection \<open>Files: uploadFile, getFilePreview, deleteFile\<close>

definition uploadFile :: "backend \<Rightarrow> payload option \<Rightarrow> world \<Rightarrow> (error + ident option) \<times> world" where
  "uploadFile b f w =
     (case storage_createFile b f w of
        (Rejects, w1) \<Rightarrow> (Inl AppwriteException, emit ErrorLevel ''Error in uploadFile:'' w1)
      | (ResolvesNullish, w1) \<Rightarrow> (Inr None, w1)
      | (ResolvesFalsy, w1) \<Rightarrow> (Inr None, w1)
      | (Resolves fid, w1) \<Rightarrow> (Inr (Some fid), w1))"

text \<open>getFilePreview never throws: a rejection or a falsy URL object gives null.\<close>

definition getFilePreview :: "backend \<Rightarrow> ident \<Rightarrow> world \<Rightarrow> url option \<times> world" where
  "getFilePreview b fid w =
     (case storage_getFilePreview b fid w of
        (Rejects, w1) \<Rightarrow> (None, emit ErrorLevel ''Error getting file preview for fileId:'' w1)
      | (ResolvesNullish, w1) \<Rightarrow>
          (None, emit ErrorLevel ''getFilePreview returned null for fileId:'' w1)
      | (ResolvesFalsy, w1) \<Rightarrow>
          (None, emit ErrorLevel ''getFilePreview returned null for fileId:'' w1)
      | (Resolves href, w1) \<Rightarrow> (Some href, w1))"

definition deleteFile :: "backend \<Rightarrow> ident \<Rightarrow> world \<Rightarrow> (error + string) \<times> world" where
  "deleteFile b fid w =
     (case storage_deleteFile b fid w of
        (Rejects, w1) \<Rightarrow> (Inl AppwriteException, emit ErrorLevel ''Error in deleteFile:'' w1)
      | (ResolvesNullish, w1) \<Rightarrow> (Inr ''ok'', w1)
      | (ResolvesFalsy, w1) \<Rightarrow> (Inr ''ok'', w1)
      | (Resolves u, w1) \<Rightarrow> (Inr ''ok'', w1))"

subsection \<open>Small JavaScript idioms\<close>

text \<open>\<open>xs[0]\<close>: undefined on an empty array.\<close>

definition first :: "'a list \<Rightarrow> 'a option" where
  "first xs = (case xs of [] \<Rightarrow> None | x # _ \<Rightarrow> Some x)"

text \<open>\<open>!s\<close> for a string that may be null or undefined.\<close>

definition falsy :: "string option \<Rightarrow> bool" where
  "falsy s = (case s of None \<Rightarrow> True | Some t \<Rightarrow> t = [])"

text \<open>\<open>s || ""\<close>.\<close>

definition or_empty :: "string option \<Rightarrow> string" where
  "or_empty s = (case s of None \<Rightarrow> [] | Some t \<Rightarrow> t)"

text \<open>\<open>s.split(",")\<close>: one piece more than there are commas.\<close>

fun split_comma :: "string \<Rightarrow> string list" where
  "split_comma [] = [[]]"
| "split_comma (c # cs) =
     (if c = CHR '','' then [] # split_comma cs
      else (case split_comma cs of [] \<Rightarrow> [[c]] | p # ps \<Rightarrow> (c # p) # ps))"

text \<open>\<open>ts.join(",")\<close>: the way back from the pieces, used to say what the split computes.\<close>

fun join_comma :: "string list \<Rightarrow> string" where
  "join_comma [] = []"
| "join_comma [t] = t"
| "join_comma (t # u # us) = t @ CHR '','' # join_comma (u # us)"

text \<open>\<open>s.replace(/ /g, "")\<close>: the regular expression matches the space character only.\<close>

definition replace_spaces :: "string \<Rightarrow> string" where
  "replace_spaces s = filter (\<lambda>c. c \<noteq> CHR '' '') s"

text \<open>
  \<open>post.tags?.replace(/ /g, "").split(",") || []\<close>: undefined tags skip the chain and
  give the empty array; an array is truthy, so the alternative is never taken otherwise.
\<close>

definition parse_tags :: "string option \<Rightarrow> string list" where
  "parse_tags t = (case t of None \<Rightarrow> [] | Some s \<Rightarrow> split_comma (replace_spaces s))"

text \<open>The catch block of every exported function: log, then throw the same error.\<close>

definition rethrow :: "string \<Rightarrow> (error + 'a) \<times> world \<Rightarrow> (error + 'a) \<times> world" where
  "rethrow msg rw =
     (case rw of
        (Inl e, w) \<Rightarrow> (Inl e, emit ErrorLevel msg w)
      | (Inr v, w) \<Rightarrow> (Inr v, w))"

text \<open>\<open>await deleteFile(id); throw new Error(msg)\<close>: a failing delete throws first.\<close>

definition delete_then_throw ::
  "backend \<Rightarrow> ident \<Rightarrow> string \<Rightarrow> world \<Rightarrow> (error + 'a) \<times> world" where
  "delete_then_throw b fid msg w =
     (case deleteFile b fid w of
        (Inl e, w1) \<Rightarrow> (Inl e, w1)
      | (Inr ok, w1) \<Rightarrow> (Inl (Error msg), w1))"

subsection \<open>Posts: createPost, updatePost, likePost\<close>

definition createPost :: "backend \<Rightarrow> new_post \<Rightarrow> world \<Rightarrow> (error + post_doc) \<times> world" where
  "createPost b post w =
     rethrow ''Error in createPost:''
       (case uploadFile b (first (new_file post)) w of
          (Inl e, w1) \<Rightarrow> (Inl e, w1)
        | (Inr None, w1) \<Rightarrow> (Inl (Error ''File upload failed.''), w1)
        | (Inr (Some fid), w1) \<Rightarrow>
            (case getFilePreview b fid w1 of
               (fileUrl, w2) \<Rightarrow>
                 if falsy fileUrl
                 then delete_then_throw b fid ''Failed to get file preview URL.'' w2
                 else
                   (case createDocument_post b
                           \<lparr>doc_id = [], creator = new_userId post, caption = new_caption post,
                            imageUrl = or_empty fileUrl, imageId = fid,
                            location = new_location post, tags = parse_tags (new_tags post),
                            likes = []\<rparr> w2 of
                      (Rejects, w3) \<Rightarrow> (Inl AppwriteException, w3)
                    | (ResolvesNullish, w3) \<Rightarrow>
                        delete_then_throw b fid ''Failed to create post document.'' w3
                    | (ResolvesFalsy, w3) \<Rightarrow>
                        delete_then_throw b fid ''Failed to create post document.'' w3
                    | (Resolves newPost, w3) \<Rightarrow> (Inr newPost, w3))))"

definition hasFileToUpdate :: "update_post \<Rightarrow> bool" where
  "hasFileToUpdate post = (case upd_file post of None \<Rightarrow> False | Some fs \<Rightarrow> 0 < length fs)"

text \<open>The fields updatePost hands to updateDocument; the other fields of the document stay.\<close>

definition update_fields :: "update_post \<Rightarrow> url \<times> ident \<Rightarrow> post_doc \<Rightarrow> post_doc" where
  "update_fields post img d =
     d\<lparr>caption := Some (case upd_caption post of None \<Rightarrow> ''No caption'' | Some c \<Rightarrow> c),
       imageUrl := fst img,
       imageId := snd img,
       location := Some (case upd_location post of None \<Rightarrow> ''Unknown location'' | Some l \<Rightarrow> l),
       tags := parse_tags (upd_tags post)\<rparr>"

text \<open>updatePost from the call of updateDocument on, with the image it has settled on.\<close>

definition updatePost_persist ::
  "backend \<Rightarrow> update_post \<Rightarrow> url \<times> ident \<Rightarrow> world \<Rightarrow> (error + post_doc) \<times> world" where
  "updatePost_persist b post img w =
     (case updateDocument_post b (upd_postId post) (update_fields post img) w of
        (Rejects, w1) \<Rightarrow> (Inl AppwriteException, w1)
      | (ResolvesNullish, w1) \<Rightarrow>
          if hasFileToUpdate post \<and> snd img \<noteq> []
          then delete_then_throw b (snd img) ''Failed to update post document.'' w1
          else (Inl (Error ''Failed to update post document.''), w1)
      | (ResolvesFalsy, w1) \<Rightarrow>
          if hasFileToUpdate post \<and> snd img \<noteq> []
          then delete_then_throw b (snd img) ''Failed to update post document.'' w1
          else (Inl (Error ''Failed to update post document.''), w1)
      | (Resolves updatedPost, w1) \<Rightarrow>
          if hasFileToUpdate post \<and> \<not> falsy (upd_imageId post)
             \<and> or_empty (upd_imageId post) \<noteq> snd img
          then
            (case deleteFile b (or_empty (upd_imageId post)) w1 of
               (Inl oldFileDeleteError, w2) \<Rightarrow>
                 (Inr updatedPost, emit WarnLevel ''Failed to delete old file with ID'' w2)
             | (Inr ok, w2) \<Rightarrow> (Inr updatedPost, w2))
          else (Inr updatedPost, w1))"

definition updatePost :: "backend \<Rightarrow> update_post \<Rightarrow> world \<Rightarrow> (error + post_doc) \<times> world" where
  "updatePost b post w =
     rethrow ''Error while updating post with ID:''
       (if hasFileToUpdate post
        then
          (case uploadFile b (first (case upd_file post of None \<Rightarrow> [] | Some fs \<Rightarrow> fs)) w of
             (Inl e, w1) \<Rightarrow> (Inl e, w1)
           | (Inr None, w1) \<Rightarrow> (Inl (Error ''Failed to upload new file for post update.''), w1)
           | (Inr (Some fid), w1) \<Rightarrow>
               (case getFilePreview b fid w1 of
                  (fileUrl, w2) \<Rightarrow>
                    if falsy fileUrl
                    then delete_then_throw b fid ''Failed to generate new file preview URL.'' w2
                    else updatePost_persist b post (or_empty fileUrl, fid) w2))
        else
          updatePost_persist b post (or_empty (upd_imageUrl post), or_empty (upd_imageId post)) w)"

definition likePost :: "backend \<Rightarrow> ident \<Rightarrow> ident list \<Rightarrow> world \<Rightarrow> (error + post_doc) \<times> world" where
  "likePost b postId likesArray w =
     rethrow ''Error in likePost for post ID:''
       (case updateDocument_post b postId (\<lambda>d. d\<lparr>likes := likesArray\<rparr>) w of
          (Rejects, w1) \<Rightarrow> (Inl AppwriteException, w1)
        | (ResolvesNullish, w1) \<Rightarrow> (Inl (Error ''Failed to update post likes.''), w1)
        | (ResolvesFalsy, w1) \<Rightarrow> (Inl (Error ''Failed to update post likes.''), w1)
        | (Resolves updatedPost, w1) \<Rightarrow> (Inr updatedPost, w1))"

text \<open>The array handleLikePost (PostStats.tsx) computes and hands to likePost.\<close>

definition updatedLikes :: "ident list \<Rightarrow> ident \<Rightarrow> ident list" where
  "updatedLikes likesList userId =
     (if userId \<in> set likesList then filter (\<lambda>i. i \<noteq> userId) likesList
      else likesList @ [userId])"

subsection \<open>Relationships: savePost, followUser, unfollowUser\<close>

text \<open>
  The existence check reads \<open>.total\<close> of what listDocuments resolved to. On undefined
  or null that read throws a TypeError. On any other falsy value the property is
  undefined and \<open>undefined > 0\<close> is false, so the code goes on as if nothing was found.
\<close>

text \<open>savePost from the call of createDocument on.\<close>

definition savePost_create ::
  "backend \<Rightarrow> ident \<Rightarrow> ident \<Rightarrow> world \<Rightarrow> (error + save_doc) \<times> world" where
  "savePost_create b userId postId w =
     (case createDocument_save b userId postId w of
        (Rejects, w1) \<Rightarrow> (Inl AppwriteException, w1)
      | (ResolvesNullish, w1) \<Rightarrow> (Inl (Error ''Failed to create save document.''), w1)
      | (ResolvesFalsy, w1) \<Rightarrow> (Inl (Error ''Failed to create save document.''), w1)
      | (Resolves newSave, w1) \<Rightarrow> (Inr newSave, w1))"

definition savePost :: "backend \<Rightarrow> ident \<Rightarrow> ident \<Rightarrow> world \<Rightarrow> (error + save_doc) \<times> world" where
  "savePost b userId postId w =
     rethrow ''Error in savePost for user''
       (case listDocuments_saves b userId postId w of
          Rejects \<Rightarrow> (Inl AppwriteException, w)
        | ResolvesNullish \<Rightarrow> (Inl TypeError, w)
        | ResolvesFalsy \<Rightarrow> savePost_create b userId postId w
        | Resolves existingSaves \<Rightarrow>
            (case existingSaves of
               d # ds \<Rightarrow> (Inr d, emit WarnLevel ''Post is already saved by user'' w)
             | [] \<Rightarrow> savePost_create b userId postId w))"

text \<open>followUser from the call of createDocument on.\<close>

definition followUser_create ::
  "backend \<Rightarrow> ident \<Rightarrow> ident \<Rightarrow> world \<Rightarrow> (error + follow_doc) \<times> world" where
  "followUser_create b followerId followingId w =
     (case createDocument_follow b followerId followingId w of
        (Rejects, w1) \<Rightarrow> (Inl AppwriteException, w1)
      | (ResolvesNullish, w1) \<Rightarrow> (Inl (Error ''Failed to create follow document.''), w1)
      | (ResolvesFalsy, w1) \<Rightarrow> (Inl (Error ''Failed to create follow document.''), w1)
      | (Resolves newFollower, w1) \<Rightarrow> (Inr newFollower, w1))"

definition followUser :: "backend \<Rightarrow> ident \<Rightarrow> ident \<Rightarrow> world \<Rightarrow> (error + follow_doc) \<times> world" where
  "followUser b followerId followingId w =
     rethrow ''Error in followUser: follower''
       (case listDocuments_followers b followerId followingId w of
          Rejects \<Rightarrow> (Inl AppwriteException, w)
        | ResolvesNullish \<Rightarrow> (Inl TypeError, w)
        | ResolvesFalsy \<Rightarrow> followUser_create b followerId followingId w
        | Resolves existingFollow \<Rightarrow>
            (case existingFollow of
               d # ds \<Rightarrow> (Inr d, emit WarnLevel ''User is already following user'' w)
             | [] \<Rightarrow> followUser_create b followerId followingId w))"

definition unfollowUser ::
  "backend \<Rightarrow> ident \<Rightarrow> ident \<Rightarrow> world \<Rightarrow> (error + string \<times> string) \<times> world" where
  "unfollowUser b followerId followingId w =
     rethrow ''Error in unfollowUser: follower''
       (case listDocuments_followers b followerId followingId w of
          Rejects \<Rightarrow> (Inl AppwriteException, w)
        | ResolvesNullish \<Rightarrow> (Inl TypeError, w)
        | ResolvesFalsy \<Rightarrow>
            (Inr (''Ok'', ''Unfollow process completed.''),
             emit WarnLevel ''No follow relationship found'' w)
        | Resolves docs \<Rightarrow>
            (case docs of
               d # ds \<Rightarrow>
                 (case deleteDocument_follow b (follow_id d) w of
                    (Rejects, w1) \<Rightarrow> (Inl AppwriteException, w1)
                  | (ResolvesNullish, w1) \<Rightarrow>
                      (Inr (''Ok'', ''Unfollow process completed.''),
                       emit LogLevel ''Successfully unfollowed user'' w1)
                  | (ResolvesFalsy, w1) \<Rightarrow>
                      (Inr (''Ok'', ''Unfollow process completed.''),
                       emit LogLevel ''Successfully unfollowed user'' w1)
                  | (Resolves u, w1) \<Rightarrow>
                      (Inr (''Ok'', ''Unfollow process completed.''),
                       emit LogLevel ''Successfully unfollowed user'' w1))
             | [] \<Rightarrow>
                 (Inr (''Ok'', ''Unfollow process completed.''),
                  emit WarnLevel ''No follow relationship found'' w)))"

subsection \<open>Example backends and stores\<close>

text \<open>A backend on which every call resolves, and an empty remote state.\<close>

definition healthy :: backend where
  "healthy =
     \<lparr>createFile_reply = (\<lambda>f. Resolves ''file1''),
      getFilePreview_reply = (\<lambda>i. Resolves ''https://cloud/preview''),
      deleteFile_reply = (\<lambda>i. Resolves ()),
      createDocument_reply = (\<lambda>c. Resolves ''doc1''),
      updateDocument_reply = (\<lambda>c i. Resolves ()),
      listDocuments_reply = (\<lambda>c. Resolves ()),
      deleteDocument_reply = (\<lambda>c i. Resolves ())\<rparr>"

definition empty_world :: world where
  "empty_world =
     \<lparr>files = {}, posts = [], saves = [], followers = [], storage_calls = [], console = []\<rparr>"

definition sample_post :: new_post where
  "sample_post =
     \<lparr>new_userId = ''u1'', new_caption = Some ''hello'', new_file = [''bytes''],
      new_location = None, new_tags = Some ''a, b ,c''\<rparr>"

text \<open>The database rejects createDocument (an outage, a permission or a validation error).\<close>

definition persist_rejects :: backend where
  "persist_rejects = healthy\<lparr>createDocument_reply := (\<lambda>c. Rejects)\<rparr>"

definition preview_fails :: backend where
  "preview_fails = healthy\<lparr>getFilePreview_reply := (\<lambda>i. ResolvesFalsy)\<rparr>"

text \<open>The preview fails and the bucket then rejects the deletion as well (an outage).\<close>

definition preview_and_delete_fail :: backend where
  "preview_and_delete_fail = preview_fails\<lparr>deleteFile_reply := (\<lambda>i. Rejects)\<rparr>"

text \<open>A bucket that answers the deletion of any id but file1 with a rejection (404).\<close>

definition unknown_file_rejected :: backend where
  "unknown_file_rejected =
     healthy\<lparr>deleteFile_reply := (\<lambda>i. if i = ''file1'' then Resolves () else Rejects)\<rparr>"

definition one_file_world :: world where
  "one_file_world = empty_world\<lparr>files := {''file1''}\<rparr>"

definition old_delete_rejected :: backend where
  "old_delete_rejected = healthy\<lparr>deleteFile_reply := (\<lambda>i. Rejects)\<rparr>"

text \<open>Two follow edges for the same ordered pair, as two racing followUser calls leave them.\<close>

definition duplicate_follow_world :: world where
  "duplicate_follow_world =
     empty_world\<lparr>followers :=
       [\<lparr>follow_id = ''e1'', doc_followerId = ''u1'', doc_followingId = ''u2''\<rparr>,
        \<lparr>follow_id = ''e2'', doc_followerId = ''u1'', doc_followingId = ''u2''\<rparr>]\<rparr>"

definition sample_doc :: post_doc where
  "sample_doc =
     \<lparr>doc_id = ''post1'', creator = ''u1'', caption = Some ''hello'',
      imageUrl = ''https://cloud/old'', imageId = ''old1'', location = Some ''Paris'',
      tags = [''a''], likes = [''u2'']\<rparr>"

definition posted_world :: world where
  "posted_world = empty_world\<lparr>files := {''old1''}, posts := [sample_doc]\<rparr>"

text \<open>An update of the document only, with caption, location and tags left out.\<close>

definition sample_update :: update_post where
  "sample_update =
     \<lparr>upd_postId = ''post1'', upd_caption = None, upd_imageId = Some ''old1'',
      upd_imageUrl = Some ''https://cloud/old'', upd_file = None, upd_location = None,
      upd_tags = None\<rparr>"

definition sample_update_file :: update_post where
  "sample_update_file = sample_update\<lparr>upd_file := Some [''bytes'']\<rparr>"

section \<open>Properties\<close>

lemmas sdk_defs = storage_createFile_def storage_getFilePreview_def storage_deleteFile_def
  createDocument_post_def updateDocument_post_def listDocuments_saves_def createDocument_save_def
  listDocuments_followers_def createDocument_follow_def deleteDocument_follow_def emit_def
  issued_def

lemmas api_defs = uploadFile_def getFilePreview_def deleteFile_def rethrow_def
  delete_then_throw_def first_def falsy_def or_empty_def savePost_create_def
  followUser_create_def

lemmas example_defs = healthy_def empty_world_def sample_post_def persist_rejects_def
  preview_fails_def preview_and_delete_fail_def unknown_file_rejected_def one_file_world_def old_delete_rejected_def
  duplicate_follow_world_def sample_doc_def posted_world_def sample_update_def
  sample_update_file_def

subsection \<open>CREATE: compensation after a failed step\<close>

text \<open>
  When the upload and the preview succeed and createDocument rejects, control goes
  straight to the catch block: the error is thrown again, no storage call follows the
  preview, and the uploaded file stays in the bucket.
\<close>

lemma createPost_persist_rejected:
  assumes "createFile_reply b (first (new_file post)) = Resolves fid"
    and "getFilePreview_reply b fid = Resolves href" and "href \<noteq> []"
    and "createDocument_reply b PostCollection = Rejects"
  shows "fst (createPost b post w) = Inl AppwriteException"
    and "files (snd (createPost b post w)) = insert fid (files w)"
    and "storage_calls (snd (createPost b post w)) =
           storage_calls w @ [CreateFile (first (new_file post)), GetFilePreview fid]"
    and "posts (snd (createPost b post w)) = posts w"
  using assms by (simp_all add: createPost_def sdk_defs api_defs)

text \<open>
  The sibling path, a createDocument that resolves to a falsy value, is the one the
  code compensates: the file is deleted before the error is thrown.
\<close>

lemma createPost_persist_falsy:
  assumes "createFile_reply b (first (new_file post)) = Resolves fid"
    and "getFilePreview_reply b fid = Resolves href" and "href \<noteq> []"
    and "createDocument_reply b PostCollection = ResolvesFalsy
         \<or> createDocument_reply b PostCollection = ResolvesNullish"
    and "deleteFile_reply b fid \<noteq> Rejects"
  shows "fst (createPost b post w) = Inl (Error ''Failed to create post document.'')"
    and "fid \<notin> files (snd (createPost b post w))"
    and "storage_calls (snd (createPost b post w)) =
           storage_calls w
           @ [CreateFile (first (new_file post)), GetFilePreview fid, DeleteFile fid]"
    and "posts (snd (createPost b post w)) = posts w"
  using assms by (auto simp: createPost_def sdk_defs api_defs split: reply.splits)

text \<open>
  Claim C1, at a concrete call: the upload resolves with file1, the preview resolves,
  createDocument rejects. createPost returns the rejection, it has issued no delete, and
  file1 is still in the bucket while no record exists: the asset is orphaned.
\<close>

theorem createPost_rejected_persist_keeps_asset:
  "fst (createPost persist_rejects sample_post empty_world) = Inl AppwriteException
   \<and> ''file1'' \<in> files (snd (createPost persist_rejects sample_post empty_world))
   \<and> storage_calls (snd (createPost persist_rejects sample_post empty_world)) =
        [CreateFile (Some ''bytes''), GetFilePreview ''file1'']
   \<and> posts (snd (createPost persist_rejects sample_post empty_world)) = []"
  by (simp add: createPost_def sdk_defs api_defs example_defs parse_tags_def replace_spaces_def)

text \<open>
  Claim C2, as the code has it: when the upload resolves with an id and getFilePreview
  returns null (the SDK call threw or gave a falsy URL), createPost returns an error,
  creates no record, and its storage calls are exactly upload, preview, delete of the
  new id. When the bucket carries out that delete, the new id is absent from the bucket
  afterwards and the error is the preview error. When the bucket rejects that delete,
  deleteFile throws the rejection, which is then the error createPost returns, and the
  new id stays in the bucket.
\<close>

theorem createPost_preview_failure_deletes_asset:
  assumes up: "createFile_reply b (first (new_file post)) = Resolves fid"
    and pv: "getFilePreview_reply b fid = Rejects
             \<or> getFilePreview_reply b fid = ResolvesNullish
             \<or> getFilePreview_reply b fid = ResolvesFalsy"
  shows "(\<exists>e. fst (createPost b post w) = Inl e)
    \<and> storage_calls (snd (createPost b post w)) =
        storage_calls w @ [CreateFile (first (new_file post)), GetFilePreview fid, DeleteFile fid]
    \<and> posts (snd (createPost b post w)) = posts w
    \<and> (deleteFile_reply b fid \<noteq> Rejects \<longrightarrow>
          fid \<notin> files (snd (createPost b post w))
          \<and> fst (createPost b post w) = Inl (Error ''Failed to get file preview URL.''))
    \<and> (deleteFile_reply b fid = Rejects \<longrightarrow>
          fid \<in> files (snd (createPost b post w))
          \<and> fst (createPost b post w) = Inl AppwriteException)"
  using up pv
  by (auto simp: createPost_def sdk_defs api_defs split: reply.splits)

text \<open>
  C2 at a concrete call: the preview of file1 is falsy and the bucket deletes on request.
\<close>

theorem createPost_preview_failure_deletes_asset_witness:
  "createFile_reply preview_fails (first (new_file sample_post)) = Resolves ''file1''
   \<and> getFilePreview_reply preview_fails ''file1'' = ResolvesFalsy
   \<and> deleteFile_reply preview_fails ''file1'' \<noteq> Rejects
   \<and> fst (createPost preview_fails sample_post empty_world) =
       Inl (Error ''Failed to get file preview URL.'')
   \<and> ''file1'' \<notin> files (snd (createPost preview_fails sample_post empty_world))
   \<and> storage_calls (snd (createPost preview_fails sample_post empty_world)) =
        [CreateFile (Some ''bytes''), GetFilePreview ''file1'', DeleteFile ''file1'']"
  using createPost_preview_failure_deletes_asset
    [of preview_fails sample_post "''file1''" empty_world]
  by (simp add: example_defs first_def)

text \<open>
  C2 as stated fails: the upload resolves with file1, the preview is falsy, and the
  bucket rejects the delete. createPost has issued the delete and returns an error, the
  rejection and not the preview error, and file1 is still in the bucket.
\<close>

theorem createPost_preview_failure_delete_rejected_counterexample:
  "createFile_reply preview_and_delete_fail (first (new_file sample_post)) = Resolves ''file1''
   \<and> getFilePreview_reply preview_and_delete_fail ''file1'' = ResolvesFalsy
   \<and> fst (getFilePreview preview_and_delete_fail ''file1'' empty_world) = None
   \<and> fst (createPost preview_and_delete_fail sample_post empty_world) = Inl AppwriteException
   \<and> ''file1'' \<in> files (snd (createPost preview_and_delete_fail sample_post empty_world))
   \<and> storage_calls (snd (createPost preview_and_delete_fail sample_post empty_world)) =
        [CreateFile (Some ''bytes''), GetFilePreview ''file1'', DeleteFile ''file1'']"
  by (simp add: createPost_def sdk_defs api_defs example_defs)

subsection \<open>Deleting a file\<close>

text \<open>
  Claim C9, as the code has it: deleteFile has no check of its own for an id that is
  not in the bucket. For every id, present or not, it issues the storage delete and
  returns ok exactly when that call does not reject; a rejection is logged and thrown
  again, and the bucket is then unchanged.
\<close>

theorem deleteFile_follows_storage_reply:
  "fst (deleteFile b fid w) =
     (if deleteFile_reply b fid = Rejects then Inl AppwriteException else Inr ''ok'')
   \<and> files (snd (deleteFile b fid w)) =
     (if deleteFile_reply b fid = Rejects then files w else files w - {fid})
   \<and> storage_calls (snd (deleteFile b fid w)) = storage_calls w @ [DeleteFile fid]"
  by (simp add: sdk_defs api_defs split: reply.splits)

text \<open>
  C9 as stated fails: on a bucket that answers the deletion of an unknown id with a
  rejection, deleteFile of an id that is not there returns the error, not ok.
\<close>

theorem deleteFile_absent_id_counterexample:
  "''ghost'' \<notin> files one_file_world
   \<and> fst (deleteFile unknown_file_rejected ''ghost'' one_file_world) = Inl AppwriteException
   \<and> fst (deleteFile unknown_file_rejected ''file1'' one_file_world) = Inr ''ok''"
  by (simp add: sdk_defs api_defs example_defs)

subsection \<open>Tags\<close>

lemma split_comma_nonempty: "split_comma s \<noteq> []"
  by (induction s) (auto split: list.splits)

lemma length_split_comma: "length (split_comma s) = Suc (count_list s (CHR '',''))"
  by (induction s) (auto split: list.splits simp: split_comma_nonempty)

lemma concat_split_comma: "concat (split_comma s) = filter (\<lambda>c. c \<noteq> CHR '','') s"
  by (induction s) (auto split: list.splits)

lemma split_comma_no_comma: "t \<in> set (split_comma s) \<Longrightarrow> CHR '','' \<notin> set t"
  by (induction s arbitrary: t) (auto split: list.splits if_splits)

lemma count_list_filter: "count_list (filter P xs) x = (if P x then count_list xs x else 0)"
  by (induction xs) auto

lemma piece_of_concat:
  assumes "t \<in> set ts" and "c \<notin> set (concat ts)"
  shows "c \<notin> set t"
  using assms by auto

lemma join_comma_Cons: "ps \<noteq> [] \<Longrightarrow> join_comma (p # ps) = p @ CHR '','' # join_comma ps"
  by (cases ps) simp_all

lemma join_comma_push: "join_comma ((c # p) # ps) = c # join_comma (p # ps)"
  by (cases ps) simp_all

text \<open>Joining the pieces of a split with commas gives the string back.\<close>

lemma join_split_comma: "join_comma (split_comma s) = s"
proof (induction s)
  case Nil
  show ?case by simp
next
  case (Cons c cs)
  obtain p ps where ps: "split_comma cs = p # ps"
    using split_comma_nonempty [of cs] by (cases "split_comma cs") auto
  show ?case
  proof (cases "c = CHR '',''")
    case True
    with Cons ps show ?thesis by (simp add: join_comma_Cons)
  next
    case False
    with Cons ps show ?thesis by (simp add: join_comma_push)
  qed
qed

lemma split_comma_no_comma_id: "CHR '','' \<notin> set t \<Longrightarrow> split_comma t = [t]"
  by (induction t) auto

lemma split_comma_append: "CHR '','' \<notin> set t \<Longrightarrow> split_comma (t @ CHR '','' # r) = t # split_comma r"
  by (induction t) auto

text \<open>
  Pieces without a comma are determined by their join: there is one way only to cut a
  string into such pieces.
\<close>

lemma split_join_comma:
  assumes "ts \<noteq> []" and "\<forall>t \<in> set ts. CHR '','' \<notin> set t"
  shows "split_comma (join_comma ts) = ts"
  using assms
proof (induction ts rule: join_comma.induct)
  case 1
  then show ?case by simp
next
  case (2 t)
  then show ?case by (simp add: split_comma_no_comma_id)
next
  case (3 t u us)
  then show ?case by (simp add: split_comma_append)
qed

text \<open>
  Claim C3, as the code has it: the expression removes the space character only (a tab
  or a newline stays inside its tag) and splits what is left on commas, so
  \<open>"a, b ,c"\<close> gives the three tags a, b, c. Tags that are undefined give the empty
  list. For a tag string with a character other than the space, the tags hold no comma
  and no space, joined by commas they are the string without its spaces, and there is
  one tag more than the string has commas.
\<close>

theorem parse_tags_strips_spaces_splits_commas:
  assumes "filter (\<lambda>c. c \<noteq> CHR '' '') s \<noteq> []"
  shows "parse_tags None = []
   \<and> join_comma (parse_tags (Some s)) = filter (\<lambda>c. c \<noteq> CHR '' '') s
   \<and> (\<forall>t \<in> set (parse_tags (Some s)). CHR '','' \<notin> set t \<and> CHR '' '' \<notin> set t)
   \<and> length (parse_tags (Some s)) = Suc (count_list s (CHR '',''))
   \<and> concat (parse_tags (Some s)) = filter (\<lambda>c. c \<noteq> CHR '' '' \<and> c \<noteq> CHR '','') s
   \<and> parse_tags (Some ''a, b ,c'') = [''a'', ''b'', ''c'']"
proof (intro conjI ballI)
  show "parse_tags None = []"
    by (simp add: parse_tags_def)
  show "join_comma (parse_tags (Some s)) = filter (\<lambda>c. c \<noteq> CHR '' '') s"
    by (simp add: parse_tags_def replace_spaces_def join_split_comma)
  show "length (parse_tags (Some s)) = Suc (count_list s (CHR '',''))"
    by (simp add: parse_tags_def replace_spaces_def length_split_comma count_list_filter)
  show c: "concat (parse_tags (Some s)) = filter (\<lambda>c. c \<noteq> CHR '' '' \<and> c \<noteq> CHR '','') s"
    by (simp add: parse_tags_def replace_spaces_def concat_split_comma conj_commute)
  show "parse_tags (Some ''a, b ,c'') = [''a'', ''b'', ''c'']"
    by (simp add: parse_tags_def replace_spaces_def)
  fix t
  assume t: "t \<in> set (parse_tags (Some s))"
  then show "CHR '','' \<notin> set t"
    by (simp add: parse_tags_def split_comma_no_comma)
  have "CHR '' '' \<notin> set (concat (parse_tags (Some s)))"
    unfolding c by simp
  with t show "CHR '' '' \<notin> set t"
    by (rule piece_of_concat)
qed

text \<open>C3 on the tag string \<open>"x y, z"\<close>: two tags, xy and z, neither with a space.\<close>

theorem parse_tags_strips_spaces_splits_commas_witness:
  "filter (\<lambda>c. c \<noteq> CHR '' '') ''x y, z'' \<noteq> []
   \<and> parse_tags (Some ''x y, z'') = [''xy'', ''z'']
   \<and> join_comma (parse_tags (Some ''x y, z'')) = ''xy,z''
   \<and> length (parse_tags (Some ''x y, z'')) = 2
   \<and> CHR '' '' \<notin> set (concat (parse_tags (Some ''x y, z'')))"
proof -
  have h: "filter (\<lambda>c. c \<noteq> CHR '' '') ''x y, z'' \<noteq> []"
    by simp
  from parse_tags_strips_spaces_splits_commas [OF h] h show ?thesis
    by (simp add: parse_tags_def replace_spaces_def)
qed

text \<open>
  C3 as stated fails on three inputs: a tab is whitespace and is not stripped, and the
  empty string and a string of spaces each give the list holding one empty tag.
\<close>

theorem parse_tags_tab_and_empty_counterexample:
  "parse_tags (Some [CHR ''a'', CHR '','', CHR 0x09, CHR ''b'']) = [''a'', [CHR 0x09, CHR ''b'']]
   \<and> parse_tags (Some []) = [[]]
   \<and> parse_tags (Some ''  '') = [[]]"
  by (simp add: parse_tags_def replace_spaces_def)

subsection \<open>UPDATE\<close>

text \<open>
  Claim C8: an update without a new payload issues no storage call and leaves the
  bucket as it is, whatever the backend answers. An update with a payload whose upload,
  preview and document update succeed returns the updated record whatever the deletion
  of the old file answers; when that deletion rejects, a warning is put on the console.
\<close>

theorem updatePost_frame_and_best_effort_cleanup:
  "(\<not> hasFileToUpdate post \<longrightarrow>
      storage_calls (snd (updatePost b post w)) = storage_calls w
      \<and> files (snd (updatePost b post w)) = files w)
   \<and> (hasFileToUpdate post
        \<and> createFile_reply b (first (case upd_file post of None \<Rightarrow> [] | Some fs \<Rightarrow> fs)) =
            Resolves fid
        \<and> getFilePreview_reply b fid = Resolves href \<and> href \<noteq> []
        \<and> updateDocument_reply b PostCollection (upd_postId post) = Resolves ()
        \<and> find (\<lambda>d. doc_id d = upd_postId post) (posts w) = Some d \<longrightarrow>
      fst (updatePost b post w) = Inr (update_fields post (href, fid) d)
      \<and> (\<not> falsy (upd_imageId post) \<and> or_empty (upd_imageId post) \<noteq> fid
           \<and> deleteFile_reply b (or_empty (upd_imageId post)) = Rejects \<longrightarrow>
            (WarnLevel, ''Failed to delete old file with ID'')
              \<in> set (console (snd (updatePost b post w)))))"
  by (auto simp: updatePost_def updatePost_persist_def sdk_defs api_defs
      split: reply.splits option.splits)


text \<open>
  C8 at two concrete calls on a store holding post1 and its file old1: the update
  without a payload issues no storage call, and the update with a payload returns the
  record although the bucket rejects the deletion of old1.
\<close>

theorem updatePost_frame_and_best_effort_cleanup_witness:
  "\<not> hasFileToUpdate sample_update
   \<and> storage_calls (snd (updatePost healthy sample_update posted_world)) = []
   \<and> files (snd (updatePost healthy sample_update posted_world)) = {''old1''}
   \<and> hasFileToUpdate sample_update_file
   \<and> deleteFile_reply old_delete_rejected ''old1'' = Rejects
   \<and> fst (updatePost old_delete_rejected sample_update_file posted_world) =
       Inr (update_fields sample_update_file (''https://cloud/preview'', ''file1'') sample_doc)
   \<and> (WarnLevel, ''Failed to delete old file with ID'')
       \<in> set (console (snd (updatePost old_delete_rejected sample_update_file posted_world)))
   \<and> ''old1'' \<in> files (snd (updatePost old_delete_rejected sample_update_file posted_world))"
proof -
  have a: "\<not> hasFileToUpdate sample_update"
    by (simp add: hasFileToUpdate_def sample_update_def)
  have b: "hasFileToUpdate sample_update_file"
    by (simp add: hasFileToUpdate_def sample_update_file_def)
  have c: "createFile_reply old_delete_rejected
        (first (case upd_file sample_update_file of None \<Rightarrow> [] | Some fs \<Rightarrow> fs)) =
        Resolves ''file1''
      \<and> getFilePreview_reply old_delete_rejected ''file1'' = Resolves ''https://cloud/preview''
      \<and> updateDocument_reply old_delete_rejected PostCollection (upd_postId sample_update_file) =
          Resolves ()
      \<and> find (\<lambda>d. doc_id d = upd_postId sample_update_file) (posts posted_world) =
          Some sample_doc
      \<and> \<not> falsy (upd_imageId sample_update_file)
      \<and> or_empty (upd_imageId sample_update_file) = ''old1''
      \<and> deleteFile_reply old_delete_rejected ''old1'' = Rejects"
    by (simp add: example_defs first_def falsy_def or_empty_def)
  have d: "''old1'' \<in> files (snd (updatePost old_delete_rejected sample_update_file posted_world))"
    by (simp add: updatePost_def updatePost_persist_def update_fields_def hasFileToUpdate_def
          parse_tags_def sdk_defs api_defs example_defs)
  from a b c d
    updatePost_frame_and_best_effort_cleanup
      [of sample_update healthy posted_world "''file1''" "''https://cloud/preview''" sample_doc]
    updatePost_frame_and_best_effort_cleanup
      [of sample_update_file old_delete_rejected posted_world "''file1''"
          "''https://cloud/preview''" sample_doc]
  show ?thesis
    by (simp add: posted_world_def empty_world_def)
qed

lemma find_Some_mem: "find P xs = Some x \<Longrightarrow> x \<in> set xs \<and> P x"
  by (induction xs) (auto split: if_splits)

text \<open>A successful update comes from an updateDocument that resolved on a stored record.\<close>

lemma updatePost_persist_Inr:
  assumes "updatePost_persist b post img w = (Inr d, w')"
  shows "\<exists>d0. find (\<lambda>x. doc_id x = upd_postId post) (posts w) = Some d0
           \<and> d = update_fields post img d0
           \<and> posts w' =
               map (\<lambda>x. if doc_id x = upd_postId post then update_fields post img x else x)
                 (posts w)"
  using assms
  by (auto simp: updatePost_persist_def updateDocument_post_def deleteFile_def
        storage_deleteFile_def emit_def issued_def delete_then_throw_def
      split: reply.splits prod.splits if_splits sum.splits option.splits)

lemma updatePost_Inr:
  assumes "updatePost b post w = (Inr d, w')"
  shows "\<exists>img d0. find (\<lambda>x. doc_id x = upd_postId post) (posts w) = Some d0
           \<and> d = update_fields post img d0
           \<and> posts w' =
               map (\<lambda>x. if doc_id x = upd_postId post then update_fields post img x else x)
                 (posts w)"
proof (cases "hasFileToUpdate post")
  case False
  with assms have "updatePost_persist b post
      (or_empty (upd_imageUrl post), or_empty (upd_imageId post)) w = (Inr d, w')"
    by (auto simp: updatePost_def rethrow_def split: sum.splits prod.splits)
  from updatePost_persist_Inr [OF this] show ?thesis by blast
next
  case True
  with assms obtain href fid w2 where
    p: "updatePost_persist b post (href, fid) w2 = (Inr d, w')" and w2: "posts w2 = posts w"
    by (auto simp: updatePost_def rethrow_def uploadFile_def getFilePreview_def
          delete_then_throw_def deleteFile_def storage_deleteFile_def storage_createFile_def
          storage_getFilePreview_def emit_def issued_def
        split: reply.splits prod.splits if_splits sum.splits option.splits)
  from updatePost_persist_Inr [OF p] w2 show ?thesis by auto
qed

text \<open>
  Claim C10: whenever updatePost succeeds, the record it returns is the stored record
  of the given id, and a caption or a location the caller left out is not kept from the
  record as it was: the stored value is the literal \<open>No caption\<close>, respectively
  \<open>Unknown location\<close>.
\<close>

theorem updatePost_missing_fields_get_defaults:
  assumes "updatePost b post w = (Inr d, w')"
  shows "(upd_caption post = None \<longrightarrow> caption d = Some ''No caption'')
    \<and> (upd_location post = None \<longrightarrow> location d = Some ''Unknown location'')
    \<and> doc_id d = upd_postId post
    \<and> d \<in> set (posts w')
    \<and> (\<forall>x \<in> set (posts w'). doc_id x = upd_postId post \<longrightarrow>
          caption x = Some (case upd_caption post of None \<Rightarrow> ''No caption'' | Some c \<Rightarrow> c)
          \<and> location x =
              Some (case upd_location post of None \<Rightarrow> ''Unknown location'' | Some l \<Rightarrow> l))"
proof -
  from updatePost_Inr [OF assms] obtain img d0 where
    f: "find (\<lambda>x. doc_id x = upd_postId post) (posts w) = Some d0"
    and d: "d = update_fields post img d0"
    and m: "posts w' =
      map (\<lambda>x. if doc_id x = upd_postId post then update_fields post img x else x) (posts w)"
    by blast
  from f have mem: "d0 \<in> set (posts w)" and id0: "doc_id d0 = upd_postId post"
    using find_Some_mem [of "\<lambda>x. doc_id x = upd_postId post" "posts w" d0] by auto
  have c: "caption d = Some (case upd_caption post of None \<Rightarrow> ''No caption'' | Some c \<Rightarrow> c)"
    and l: "location d =
      Some (case upd_location post of None \<Rightarrow> ''Unknown location'' | Some l \<Rightarrow> l)"
    and i: "doc_id d = upd_postId post"
    using d id0 by (simp_all add: update_fields_def)
  have s: "d \<in> set (posts w')"
    using mem id0 d by (force simp: m)
  have a: "\<forall>x \<in> set (posts w'). doc_id x = upd_postId post \<longrightarrow>
          caption x = Some (case upd_caption post of None \<Rightarrow> ''No caption'' | Some c \<Rightarrow> c)
          \<and> location x =
              Some (case upd_location post of None \<Rightarrow> ''Unknown location'' | Some l \<Rightarrow> l)"
    by (auto simp: m update_fields_def split: if_splits)
  from c l i s a show ?thesis by simp
qed

text \<open>
  C10 on the stored post1, whose caption is hello and whose location is Paris: an
  update that leaves both out stores the two defaults in their place.
\<close>

theorem updatePost_missing_fields_get_defaults_witness:
  "updatePost healthy sample_update posted_world =
     (Inr (sample_doc\<lparr>caption := Some ''No caption'', location := Some ''Unknown location'',
             tags := []\<rparr>),
      posted_world\<lparr>posts := [sample_doc\<lparr>caption := Some ''No caption'',
             location := Some ''Unknown location'', tags := []\<rparr>]\<rparr>)
   \<and> caption sample_doc = Some ''hello''
   \<and> location sample_doc = Some ''Paris''
   \<and> upd_caption sample_update = None
   \<and> upd_location sample_update = None
   \<and> caption (sample_doc\<lparr>caption := Some ''No caption'',
         location := Some ''Unknown location'', tags := []\<rparr>) = Some ''No caption''"
proof -
  have e: "updatePost healthy sample_update posted_world =
     (Inr (sample_doc\<lparr>caption := Some ''No caption'', location := Some ''Unknown location'',
             tags := []\<rparr>),
      posted_world\<lparr>posts := [sample_doc\<lparr>caption := Some ''No caption'',
             location := Some ''Unknown location'', tags := []\<rparr>]\<rparr>)"
    by (simp add: updatePost_def updatePost_persist_def update_fields_def hasFileToUpdate_def
          parse_tags_def sdk_defs api_defs example_defs)
  from updatePost_missing_fields_get_defaults [OF e] e show ?thesis
    by (simp add: example_defs)
qed

subsection \<open>Follow edges\<close>

text \<open>
  Claim C4, as the code has it: followUser compares nothing, so a user following
  themselves is treated like any other pair. When the query resolves and no edge from a
  to a is stored, the created document is an edge from a to a and it is appended to the
  collection; when one is stored, the first is returned and the collection is unchanged.
\<close>

theorem followUser_self_follow_creates_edge:
  assumes "listDocuments_reply b FollowersCollection = Resolves ()"
  shows "(filter (\<lambda>d. doc_followerId d = a \<and> doc_followingId d = a) (followers w) = []
          \<and> createDocument_reply b FollowersCollection = Resolves i \<longrightarrow>
            fst (followUser b a a w) =
              Inr \<lparr>follow_id = i, doc_followerId = a, doc_followingId = a\<rparr>
            \<and> followers (snd (followUser b a a w)) =
                followers w @ [\<lparr>follow_id = i, doc_followerId = a, doc_followingId = a\<rparr>])
       \<and> (filter (\<lambda>d. doc_followerId d = a \<and> doc_followingId d = a) (followers w) = d # ds
           \<longrightarrow> fst (followUser b a a w) = Inr d
               \<and> followers (snd (followUser b a a w)) = followers w)"
  using assms by (auto simp: followUser_def sdk_defs api_defs split: reply.splits list.splits)

text \<open>C4 for user u9 on the store with two edges from u1 to u2: a self-edge is added.\<close>

theorem followUser_self_follow_creates_edge_witness:
  "listDocuments_reply healthy FollowersCollection = Resolves ()
   \<and> createDocument_reply healthy FollowersCollection = Resolves ''doc1''
   \<and> filter (\<lambda>d. doc_followerId d = ''u9'' \<and> doc_followingId d = ''u9'')
        (followers duplicate_follow_world) = []
   \<and> fst (followUser healthy ''u9'' ''u9'' duplicate_follow_world) =
        Inr \<lparr>follow_id = ''doc1'', doc_followerId = ''u9'', doc_followingId = ''u9''\<rparr>
   \<and> length (followers (snd (followUser healthy ''u9'' ''u9'' duplicate_follow_world))) = 3"
proof -
  have l: "listDocuments_reply healthy FollowersCollection = Resolves ()"
    and c: "createDocument_reply healthy FollowersCollection = Resolves ''doc1''"
    and e: "filter (\<lambda>d. doc_followerId d = ''u9'' \<and> doc_followingId d = ''u9'')
        (followers duplicate_follow_world) = []"
    by (simp_all add: example_defs)
  from followUser_self_follow_creates_edge [OF l, of "''u9''" duplicate_follow_world "''doc1''"]
    l c e
  show ?thesis by (simp add: duplicate_follow_world_def empty_world_def)
qed

text \<open>
  C4 as stated fails: on an empty store and a healthy backend followUser(u1, u1)
  returns a new document, and the collection then holds an edge from u1 to u1.
\<close>

theorem followUser_self_follow_counterexample:
  "fst (followUser healthy ''u1'' ''u1'' empty_world) =
     Inr \<lparr>follow_id = ''doc1'', doc_followerId = ''u1'', doc_followingId = ''u1''\<rparr>
   \<and> followers (snd (followUser healthy ''u1'' ''u1'' empty_world)) =
     [\<lparr>follow_id = ''doc1'', doc_followerId = ''u1'', doc_followingId = ''u1''\<rparr>]"
  by (simp add: followUser_def sdk_defs api_defs example_defs)

lemma filter_first_removed:
  assumes "distinct (map f xs)" and "filter P xs = d # ds"
  shows "filter P (filter (\<lambda>x. f x \<noteq> f d) xs) = ds"
  using assms
proof (induction xs)
  case Nil
  then show ?case by simp
next
  case (Cons x xs)
  show ?case
  proof (cases "P x")
    case True
    with Cons.prems have xd: "x = d" and ds: "filter P xs = ds" by auto
    from Cons.prems(1) have "f x \<notin> f ` set xs" by simp
    then have "\<forall>y \<in> set xs. f y \<noteq> f x" by (metis imageI)
    then have "filter (\<lambda>y. f y \<noteq> f x) xs = xs" by (simp add: filter_id_conv)
    with xd ds show ?thesis by simp
  next
    case False
    with Cons show ?thesis by auto
  qed
qed

text \<open>
  Claim C5, as the code has it: unfollowUser deletes the first matching document only.
  When the query resolves and nothing matches, the call returns its Ok status and the
  collection is unchanged. When something matches and the deletion of the first match
  does not reject, the call returns Ok and the collection has lost the documents with
  the first match's id; with ids that are distinct, the edges left for the pair are all
  the matches but the first, so none is left exactly when there was one match.
\<close>

theorem unfollowUser_deletes_first_match:
  assumes l: "listDocuments_reply b FollowersCollection = Resolves ()"
  shows "(filter (\<lambda>d. doc_followerId d = a \<and> doc_followingId d = c) (followers w) = [] \<longrightarrow>
            fst (unfollowUser b a c w) = Inr (''Ok'', ''Unfollow process completed.'')
            \<and> followers (snd (unfollowUser b a c w)) = followers w)
       \<and> (filter (\<lambda>d. doc_followerId d = a \<and> doc_followingId d = c) (followers w) = d # ds
           \<and> deleteDocument_reply b FollowersCollection (follow_id d) \<noteq> Rejects \<longrightarrow>
            fst (unfollowUser b a c w) = Inr (''Ok'', ''Unfollow process completed.'')
            \<and> followers (snd (unfollowUser b a c w)) =
                filter (\<lambda>x. follow_id x \<noteq> follow_id d) (followers w)
            \<and> (distinct (map follow_id (followers w)) \<longrightarrow>
                 filter (\<lambda>d. doc_followerId d = a \<and> doc_followingId d = c)
                   (followers (snd (unfollowUser b a c w))) = ds))"
proof -
  have z: "fst (unfollowUser b a c w) = Inr (''Ok'', ''Unfollow process completed.'')
            \<and> followers (snd (unfollowUser b a c w)) = followers w"
    if "filter (\<lambda>d. doc_followerId d = a \<and> doc_followingId d = c) (followers w) = []"
    using l that by (simp add: unfollowUser_def sdk_defs api_defs)
  have n: "fst (unfollowUser b a c w) = Inr (''Ok'', ''Unfollow process completed.'')
            \<and> followers (snd (unfollowUser b a c w)) =
                filter (\<lambda>x. follow_id x \<noteq> follow_id d) (followers w)"
    if "filter (\<lambda>d. doc_followerId d = a \<and> doc_followingId d = c) (followers w) = d # ds"
      and "deleteDocument_reply b FollowersCollection (follow_id d) \<noteq> Rejects"
    using l that by (auto simp: unfollowUser_def sdk_defs api_defs split: reply.splits)
  have r: "filter (\<lambda>d. doc_followerId d = a \<and> doc_followingId d = c)
      (filter (\<lambda>x. follow_id x \<noteq> follow_id d) (followers w)) = ds"
    if "filter (\<lambda>d. doc_followerId d = a \<and> doc_followingId d = c) (followers w) = d # ds"
      and "distinct (map follow_id (followers w))"
    using that filter_first_removed [of follow_id "followers w"
        "\<lambda>d. doc_followerId d = a \<and> doc_followingId d = c" d ds]
    by simp
  show ?thesis
  proof (intro conjI impI)
    assume "filter (\<lambda>d. doc_followerId d = a \<and> doc_followingId d = c) (followers w) = []"
    from z [OF this]
    show "fst (unfollowUser b a c w) = Inr (''Ok'', ''Unfollow process completed.'')"
      and "followers (snd (unfollowUser b a c w)) = followers w"
      by simp_all
  next
    assume h: "filter (\<lambda>d. doc_followerId d = a \<and> doc_followingId d = c) (followers w) = d # ds
           \<and> deleteDocument_reply b FollowersCollection (follow_id d) \<noteq> Rejects"
    then have m: "filter (\<lambda>d. doc_followerId d = a \<and> doc_followingId d = c) (followers w) = d # ds"
      and k: "deleteDocument_reply b FollowersCollection (follow_id d) \<noteq> Rejects"
      by simp_all
    from n [OF m k]
    show "fst (unfollowUser b a c w) = Inr (''Ok'', ''Unfollow process completed.'')"
      and f: "followers (snd (unfollowUser b a c w)) =
                filter (\<lambda>x. follow_id x \<noteq> follow_id d) (followers w)"
      by simp_all
    assume "distinct (map follow_id (followers w))"
    from r [OF m this]
    show "filter (\<lambda>d. doc_followerId d = a \<and> doc_followingId d = c)
                   (followers (snd (unfollowUser b a c w))) = ds"
      unfolding f .
  qed
qed

text \<open>
  C5 on the store with the two edges e1 and e2 from u1 to u2, where e2 is what is left
  for the pair, and on the empty store, where the call returns Ok and changes nothing.
\<close>

theorem unfollowUser_deletes_first_match_witness:
  "listDocuments_reply healthy FollowersCollection = Resolves ()
   \<and> deleteDocument_reply healthy FollowersCollection ''e1'' \<noteq> Rejects
   \<and> fst (unfollowUser healthy ''u1'' ''u2'' duplicate_follow_world) =
       Inr (''Ok'', ''Unfollow process completed.'')
   \<and> filter (\<lambda>d. doc_followerId d = ''u1'' \<and> doc_followingId d = ''u2'')
       (followers (snd (unfollowUser healthy ''u1'' ''u2'' duplicate_follow_world))) =
       [\<lparr>follow_id = ''e2'', doc_followerId = ''u1'', doc_followingId = ''u2''\<rparr>]
   \<and> fst (unfollowUser healthy ''u1'' ''u2'' empty_world) =
       Inr (''Ok'', ''Unfollow process completed.'')
   \<and> followers (snd (unfollowUser healthy ''u1'' ''u2'' empty_world)) = []"
proof -
  have l: "listDocuments_reply healthy FollowersCollection = Resolves ()"
    by (simp add: healthy_def)
  have k: "deleteDocument_reply healthy FollowersCollection ''e1'' \<noteq> Rejects"
    by (simp add: healthy_def)
  have m: "filter (\<lambda>d. doc_followerId d = ''u1'' \<and> doc_followingId d = ''u2'')
      (followers duplicate_follow_world) =
      \<lparr>follow_id = ''e1'', doc_followerId = ''u1'', doc_followingId = ''u2''\<rparr>
      # [\<lparr>follow_id = ''e2'', doc_followerId = ''u1'', doc_followingId = ''u2''\<rparr>]"
    by (simp add: duplicate_follow_world_def empty_world_def)
  have i: "distinct (map follow_id (followers duplicate_follow_world))"
    by (simp add: duplicate_follow_world_def empty_world_def)
  have e: "filter (\<lambda>d. doc_followerId d = ''u1'' \<and> doc_followingId d = ''u2'')
      (followers empty_world) = []"
    by (simp add: empty_world_def)
  from unfollowUser_deletes_first_match [OF l, of "''u1''" "''u2''" duplicate_follow_world
      "\<lparr>follow_id = ''e1'', doc_followerId = ''u1'', doc_followingId = ''u2''\<rparr>"
      "[\<lparr>follow_id = ''e2'', doc_followerId = ''u1'', doc_followingId = ''u2''\<rparr>]"]
    unfollowUser_deletes_first_match [OF l, of "''u1''" "''u2''" empty_world]
    l k m i e
  show ?thesis by (simp add: duplicate_follow_world_def empty_world_def)
qed

text \<open>
  C5 as stated fails: with two edges from u1 to u2 stored, unfollowUser(u1, u2) returns
  Ok and the second edge is still in the collection.
\<close>

theorem unfollowUser_duplicate_remains_counterexample:
  "fst (unfollowUser healthy ''u1'' ''u2'' duplicate_follow_world) =
     Inr (''Ok'', ''Unfollow process completed.'')
   \<and> followers (snd (unfollowUser healthy ''u1'' ''u2'' duplicate_follow_world)) =
       [\<lparr>follow_id = ''e2'', doc_followerId = ''u1'', doc_followingId = ''u2''\<rparr>]"
  by (simp add: unfollowUser_def sdk_defs api_defs example_defs)

subsection \<open>Save edges\<close>

text \<open>
  A query that resolves to a falsy value other than undefined and null is read as
  nothing found: savePost goes on to createDocument although an edge may be stored.
\<close>

lemma savePost_falsy_query_creates:
  assumes "listDocuments_reply b SavesCollection = ResolvesFalsy"
    and "createDocument_reply b SavesCollection = Resolves i"
  shows "saves (snd (savePost b u p w)) =
           saves w @ [\<lparr>save_id = i, save_user = u, save_post = p\<rparr>]"
  using assms by (simp add: savePost_def sdk_defs api_defs)

text \<open>
  Claim C6: when an edge for the pair is stored and the query resolves with the stored
  edges, savePost returns the first of them and leaves the collection as it is; the
  collection also stays as it is when the query rejects or resolves to undefined or
  null. When no edge is stored and both calls resolve, savePost appends one new edge and
  returns it; a second savePost for the pair, on any backend whose query does not
  resolve to a falsy value other than undefined and null, then leaves exactly that one
  edge for the pair.
\<close>

theorem savePost_idempotent:
  "(listDocuments_reply b SavesCollection = Resolves ()
      \<and> filter (\<lambda>d. save_user d = u \<and> save_post d = p) (saves w) = d # ds \<longrightarrow>
        fst (savePost b u p w) = Inr d \<and> saves (snd (savePost b u p w)) = saves w)
   \<and> (listDocuments_reply b SavesCollection \<noteq> ResolvesFalsy
      \<and> filter (\<lambda>d. save_user d = u \<and> save_post d = p) (saves w) \<noteq> [] \<longrightarrow>
        saves (snd (savePost b u p w)) = saves w)
   \<and> (listDocuments_reply b SavesCollection = Resolves ()
      \<and> createDocument_reply b SavesCollection = Resolves i
      \<and> filter (\<lambda>d. save_user d = u \<and> save_post d = p) (saves w) = [] \<longrightarrow>
        fst (savePost b u p w) = Inr \<lparr>save_id = i, save_user = u, save_post = p\<rparr>
        \<and> saves (snd (savePost b u p w)) =
            saves w @ [\<lparr>save_id = i, save_user = u, save_post = p\<rparr>]
        \<and> (listDocuments_reply b2 SavesCollection \<noteq> ResolvesFalsy \<longrightarrow>
             filter (\<lambda>d. save_user d = u \<and> save_post d = p)
               (saves (snd (savePost b2 u p (snd (savePost b u p w))))) =
               [\<lparr>save_id = i, save_user = u, save_post = p\<rparr>]))"
  by (auto simp: savePost_def sdk_defs api_defs split: reply.splits list.splits)

text \<open>C6 on the empty store: two calls of savePost(u1, post1) leave the one edge doc1.\<close>

theorem savePost_idempotent_witness:
  "listDocuments_reply healthy SavesCollection = Resolves ()
   \<and> createDocument_reply healthy SavesCollection = Resolves ''doc1''
   \<and> saves empty_world = []
   \<and> fst (savePost healthy ''u1'' ''post1'' empty_world) =
       Inr \<lparr>save_id = ''doc1'', save_user = ''u1'', save_post = ''post1''\<rparr>
   \<and> saves (snd (savePost healthy ''u1'' ''post1''
        (snd (savePost healthy ''u1'' ''post1'' empty_world)))) =
       [\<lparr>save_id = ''doc1'', save_user = ''u1'', save_post = ''post1''\<rparr>]
   \<and> fst (savePost healthy ''u1'' ''post1''
        (snd (savePost healthy ''u1'' ''post1'' empty_world))) =
       Inr \<lparr>save_id = ''doc1'', save_user = ''u1'', save_post = ''post1''\<rparr>"
proof -
  have l: "listDocuments_reply healthy SavesCollection = Resolves ()"
    and c: "createDocument_reply healthy SavesCollection = Resolves ''doc1''"
    and e: "saves empty_world = []"
    by (simp_all add: example_defs)
  have one: "fst (savePost healthy ''u1'' ''post1'' empty_world) =
       Inr \<lparr>save_id = ''doc1'', save_user = ''u1'', save_post = ''post1''\<rparr>"
    and s1: "saves (snd (savePost healthy ''u1'' ''post1'' empty_world)) =
       [\<lparr>save_id = ''doc1'', save_user = ''u1'', save_post = ''post1''\<rparr>]"
    using savePost_idempotent [of healthy "''u1''" "''post1''" empty_world _ _ "''doc1''"] l c e
    by simp_all
  have m: "filter (\<lambda>d. save_user d = ''u1'' \<and> save_post d = ''post1'')
      (saves (snd (savePost healthy ''u1'' ''post1'' empty_world))) =
      \<lparr>save_id = ''doc1'', save_user = ''u1'', save_post = ''post1''\<rparr> # []"
    by (simp add: s1)
  from savePost_idempotent [of healthy "''u1''" "''post1''"
      "snd (savePost healthy ''u1'' ''post1'' empty_world)"
      "\<lparr>save_id = ''doc1'', save_user = ''u1'', save_post = ''post1''\<rparr>" "[]"] l m
  have two: "fst (savePost healthy ''u1'' ''post1''
        (snd (savePost healthy ''u1'' ''post1'' empty_world))) =
       Inr \<lparr>save_id = ''doc1'', save_user = ''u1'', save_post = ''post1''\<rparr>"
    and s2: "saves (snd (savePost healthy ''u1'' ''post1''
        (snd (savePost healthy ''u1'' ''post1'' empty_world)))) =
        saves (snd (savePost healthy ''u1'' ''post1'' empty_world))"
    by simp_all
  from l c e one two s1 s2 show ?thesis by simp
qed

subsection \<open>Likes\<close>

lemma find_likes_update:
  "find (\<lambda>d. doc_id d = pid) xs = Some d \<Longrightarrow>
   find (\<lambda>d. doc_id d = pid) (map (\<lambda>x. if doc_id x = pid then x\<lparr>likes := ls\<rparr> else x) xs) =
     Some (d\<lparr>likes := ls\<rparr>)"
  by (induction xs) (auto split: if_splits)

lemma map_likes_update_twice:
  "map (\<lambda>x. if doc_id x = pid then x\<lparr>likes := ls\<rparr> else x)
     (map (\<lambda>x. if doc_id x = pid then x\<lparr>likes := ls\<rparr> else x) xs) =
   map (\<lambda>x. if doc_id x = pid then x\<lparr>likes := ls\<rparr> else x) xs"
  by (induction xs) simp_all

lemma likes_after_update:
  assumes "x \<in> set (map (\<lambda>x. if doc_id x = pid then x\<lparr>likes := ls\<rparr> else x)
      (xs :: post_doc list))"
    and "doc_id x = pid"
  shows "likes x = ls"
proof -
  define f where "f = (\<lambda>x::post_doc. if doc_id x = pid then x\<lparr>likes := ls\<rparr> else x)"
  from assms(1) have "x \<in> f ` set xs"
    unfolding f_def by (simp only: set_map)
  then obtain y where y: "x = f y" by blast
  show ?thesis
  proof (cases "doc_id y = pid")
    case True
    with y show ?thesis by (simp add: f_def)
  next
    case False
    with y assms(2) show ?thesis by (simp add: f_def)
  qed
qed

lemma likePost_resolved:
  assumes "updateDocument_reply b PostCollection pid = Resolves ()"
    and "find (\<lambda>d. doc_id d = pid) (posts w) = Some d"
  shows "likePost b pid ls w =
     (Inr (d\<lparr>likes := ls\<rparr>),
      w\<lparr>posts := map (\<lambda>x. if doc_id x = pid then x\<lparr>likes := ls\<rparr> else x) (posts w)\<rparr>)"
  using assms by (simp add: likePost_def updateDocument_post_def rethrow_def)

lemma likePost_twice:
  assumes r: "updateDocument_reply b PostCollection pid = Resolves ()"
    and f: "find (\<lambda>d. doc_id d = pid) (posts w) = Some d"
  shows "likePost b pid ls (snd (likePost b pid ls w)) = likePost b pid ls w"
proof -
  have f1: "find (\<lambda>d. doc_id d = pid)
      (posts (w\<lparr>posts := map (\<lambda>x. if doc_id x = pid then x\<lparr>likes := ls\<rparr> else x) (posts w)\<rparr>)) =
      Some (d\<lparr>likes := ls\<rparr>)"
    using find_likes_update [OF f] by simp
  show ?thesis
    by (simp add: likePost_resolved [OF r f] likePost_resolved [OF r f1] map_likes_update_twice)
qed

text \<open>
  Claim C7: the array handleLikePost computes has, as a set, the user removed when they
  were in it and added when they were not: from u1, u2 toggling u1 gives u2 alone, and
  from u2 toggling u1 gives the set of u1 and u2. likePost, when the update resolves on
  a stored post, replaces the post's likes by the whole array it is given, and a second
  call with the same array returns the same record and leaves the same stored state.
\<close>

theorem like_toggle_stores_whole_array:
  "set (updatedLikes ls u) = (if u \<in> set ls then set ls - {u} else insert u (set ls))
   \<and> (u1 \<noteq> u2 \<longrightarrow> updatedLikes [u1, u2] u1 = [u2] \<and> set (updatedLikes [u2] u1) = {u1, u2})
   \<and> (updateDocument_reply b PostCollection pid = Resolves ()
        \<and> find (\<lambda>d. doc_id d = pid) (posts w) = Some d \<longrightarrow>
        fst (likePost b pid ls w) = Inr (d\<lparr>likes := ls\<rparr>)
        \<and> posts (snd (likePost b pid ls w)) =
            map (\<lambda>x. if doc_id x = pid then x\<lparr>likes := ls\<rparr> else x) (posts w)
        \<and> (\<forall>x \<in> set (posts (snd (likePost b pid ls w))). doc_id x = pid \<longrightarrow> likes x = ls)
        \<and> likePost b pid ls (snd (likePost b pid ls w)) = likePost b pid ls w)"
proof (intro conjI impI ballI)
  show "set (updatedLikes ls u) = (if u \<in> set ls then set ls - {u} else insert u (set ls))"
    by (auto simp: updatedLikes_def)
next
  assume "u1 \<noteq> u2"
  then show "updatedLikes [u1, u2] u1 = [u2]"
    by (simp add: updatedLikes_def)
next
  assume "u1 \<noteq> u2"
  then show "set (updatedLikes [u2] u1) = {u1, u2}"
    by (auto simp: updatedLikes_def)
next
  assume "updateDocument_reply b PostCollection pid = Resolves ()
        \<and> find (\<lambda>d. doc_id d = pid) (posts w) = Some d"
  then have r: "updateDocument_reply b PostCollection pid = Resolves ()"
    and f: "find (\<lambda>d. doc_id d = pid) (posts w) = Some d"
    by simp_all
  show "fst (likePost b pid ls w) = Inr (d\<lparr>likes := ls\<rparr>)"
    by (simp add: likePost_resolved [OF r f])
next
  assume "updateDocument_reply b PostCollection pid = Resolves ()
        \<and> find (\<lambda>d. doc_id d = pid) (posts w) = Some d"
  then have r: "updateDocument_reply b PostCollection pid = Resolves ()"
    and f: "find (\<lambda>d. doc_id d = pid) (posts w) = Some d"
    by simp_all
  show "posts (snd (likePost b pid ls w)) =
            map (\<lambda>x. if doc_id x = pid then x\<lparr>likes := ls\<rparr> else x) (posts w)"
    by (simp add: likePost_resolved [OF r f])
next
  fix x
  assume "updateDocument_reply b PostCollection pid = Resolves ()
        \<and> find (\<lambda>d. doc_id d = pid) (posts w) = Some d"
  then have r: "updateDocument_reply b PostCollection pid = Resolves ()"
    and f: "find (\<lambda>d. doc_id d = pid) (posts w) = Some d"
    by simp_all
  have m: "posts (snd (likePost b pid ls w)) =
            map (\<lambda>x. if doc_id x = pid then x\<lparr>likes := ls\<rparr> else x) (posts w)"
    by (simp add: likePost_resolved [OF r f])
  assume a: "x \<in> set (posts (snd (likePost b pid ls w)))" and i: "doc_id x = pid"
  from a have "x \<in> set (map (\<lambda>x. if doc_id x = pid then x\<lparr>likes := ls\<rparr> else x) (posts w))"
    unfolding m .
  from likes_after_update [OF this i] show "likes x = ls" .
next
  assume "updateDocument_reply b PostCollection pid = Resolves ()
        \<and> find (\<lambda>d. doc_id d = pid) (posts w) = Some d"
  then have r: "updateDocument_reply b PostCollection pid = Resolves ()"
    and f: "find (\<lambda>d. doc_id d = pid) (posts w) = Some d"
    by simp_all
  from likePost_twice [OF r f]
  show "likePost b pid ls (snd (likePost b pid ls w)) = likePost b pid ls w" .
qed

text \<open>
  C7 on the stored post1, liked by u2: u1 toggles on, likePost stores the array u2, u1,
  and storing it a second time changes nothing.
\<close>

theorem like_toggle_stores_whole_array_witness:
  "updatedLikes [''u1'', ''u2''] ''u1'' = [''u2'']
   \<and> updatedLikes [''u2''] ''u1'' = [''u2'', ''u1'']
   \<and> updateDocument_reply healthy PostCollection ''post1'' = Resolves ()
   \<and> find (\<lambda>d. doc_id d = ''post1'') (posts posted_world) = Some sample_doc
   \<and> fst (likePost healthy ''post1'' [''u2'', ''u1''] posted_world) =
       Inr (sample_doc\<lparr>likes := [''u2'', ''u1'']\<rparr>)
   \<and> posts (snd (likePost healthy ''post1'' [''u2'', ''u1''] posted_world)) =
       [sample_doc\<lparr>likes := [''u2'', ''u1'']\<rparr>]
   \<and> likePost healthy ''post1'' [''u2'', ''u1'']
        (snd (likePost healthy ''post1'' [''u2'', ''u1''] posted_world)) =
       likePost healthy ''post1'' [''u2'', ''u1''] posted_world"
proof -
  have r: "updateDocument_reply healthy PostCollection ''post1'' = Resolves ()"
    by (simp add: healthy_def)
  have f: "find (\<lambda>d. doc_id d = ''post1'') (posts posted_world) = Some sample_doc"
    by (simp add: posted_world_def empty_world_def sample_doc_def)
  have p: "posts posted_world = [sample_doc]"
    by (simp add: posted_world_def empty_world_def)
  have i: "doc_id sample_doc = ''post1''"
    by (simp add: sample_doc_def)
  have n: "''u1'' \<noteq> ''u2''"
    by simp
  have t: "updatedLikes [''u2''] ''u1'' = [''u2'', ''u1'']"
    by (simp add: updatedLikes_def)
  from like_toggle_stores_whole_array
      [of "[''u2'', ''u1'']" "''u1''" "''u1''" "''u2''" healthy "''post1''" posted_world sample_doc]
    r f p i n t
  show ?thesis by simp
qed

end
